theory Spec2Isabelle
  imports
    Complex_Main
    "HOL-Library.Char_ord"
    "HOL-Library.List_Lexorder"
    "HOL-Library.AList"
    "HOL-Library.Multiset"
begin

section \<open>Duplicate detection: candidates, merging and clustering\<close>

text \<open>
  The development embeds the duplicate-detection core of the repository:
  \<^verbatim>\<open>duplicate_detector.py\<close> (class \<^verbatim>\<open>DuplicateDetector\<close>) and
  \<^verbatim>\<open>BigQueryVectorEngine._create_merge_recommendation\<close> of \<^verbatim>\<open>vector_engine.py\<close>.

  Conventions of the embedding.
  \<^item> Python \<^verbatim>\<open>float\<close> values (scores, weights, prices) are exact reals: the decimal
    literals of the source (\<^verbatim>\<open>0.1\<close>, \<^verbatim>\<open>0.85\<close>, \<^verbatim>\<open>29.5735\<close>) denote the rationals they
    spell, and rounding of binary floating point is not modelled.
  \<^item> Python \<^verbatim>\<open>str\<close> is \<^typ>\<open>string\<close>; strings are ordered lexicographically by
    character code, as Python compares them.
  \<^item> A Python \<^verbatim>\<open>dict\<close> is an association list in insertion order.
  \<^item> The order in which Python iterates a \<^verbatim>\<open>set\<close> of strings is fixed by the
    interpreter (hashing), not by the program. Where the source iterates a set, the model
    takes that order as a parameter \<open>iter\<close>: \<open>iter xs\<close> is the sequence in which the
    set built from the elements \<open>xs\<close> (inserted in this order) is traversed.
\<close>

subsection \<open>Data model\<close>

text \<open>The dataclass \<^verbatim>\<open>DuplicateCandidate\<close>.\<close>

record DuplicateCandidate =
  sku1 :: string
  sku2 :: string
  similarity_score :: real
  matching_attributes :: "(string \<times> bool) list"
  confidence :: real
  reason :: string


subsection \<open>Python helpers\<close>

text \<open>\<^verbatim>\<open>d[k].append(v)\<close> on a \<^verbatim>\<open>defaultdict(list)\<close>: a new key goes last.\<close>

fun append_to :: "'k \<Rightarrow> 'v \<Rightarrow> ('k \<times> 'v list) list \<Rightarrow> ('k \<times> 'v list) list" where
  "append_to k v [] = [(k, [v])]"
| "append_to k v ((k', vs) # m) =
     (if k' = k then (k', vs @ [v]) # m else (k', vs) # append_to k v m)"

text \<open>
  The loop \<^verbatim>\<open>for x in xs: d[key(x)].append(x)\<close> starting from an empty
  \<^verbatim>\<open>defaultdict(list)\<close>.
\<close>

definition group_by_key :: "('v \<Rightarrow> 'k) \<Rightarrow> 'v list \<Rightarrow> ('k \<times> 'v list) list" where
  "group_by_key key xs = fold (\<lambda>x. append_to (key x) x) xs []"

text \<open>\<^verbatim>\<open>d.update(e)\<close>: an existing key keeps its position and takes the new value.\<close>

definition dict_update :: "('k \<times> 'v) list \<Rightarrow> ('k \<times> 'v) list \<Rightarrow> ('k \<times> 'v) list" where
  "dict_update d e = fold (\<lambda>(k, v). AList.update k v) e d"

text \<open>
  \<^verbatim>\<open>max(...)\<close> over a non-empty sequence of floats. On an empty sequence Python raises
  \<^verbatim>\<open>ValueError\<close>; the function has no equation there, and \<open>group_by_key\<close> never
  builds an empty group (lemma \<open>group_by_key_nonempty\<close> below).
\<close>

fun max_of :: "real list \<Rightarrow> real" where
  "max_of (x # xs) = fold (\<lambda>y m. if m < y then y else m) xs x"

text \<open>\<^verbatim>\<open>sep.join(xs)\<close>.\<close>

fun join :: "string \<Rightarrow> string list \<Rightarrow> string" where
  "join sep [] = []"
| "join sep [x] = x"
| "join sep (x # y # ys) = x @ sep @ join sep (y # ys)"

subsection \<open>\<^verbatim>\<open>DuplicateDetector._merge_candidates\<close>\<close>

text \<open>\<^verbatim>\<open>key = tuple(sorted([candidate.sku1, candidate.sku2]))\<close>\<close>

definition pair_key :: "DuplicateCandidate \<Rightarrow> string \<times> string" where
  "pair_key c = (if sku2 c < sku1 c then (sku2 c, sku1 c) else (sku1 c, sku2 c))"

definition pair_map :: "DuplicateCandidate list \<Rightarrow> ((string \<times> string) \<times> DuplicateCandidate list) list" where
  "pair_map candidates = group_by_key pair_key candidates"

text \<open>The body of the loop over \<^verbatim>\<open>pair_map.items()\<close>.\<close>

definition merge_pair ::
  "(string list \<Rightarrow> string list) \<Rightarrow> (string \<times> string) \<times> DuplicateCandidate list \<Rightarrow> DuplicateCandidate" where
  "merge_pair iter item =
     (let pair_candidates = snd item;
          all_matches = fold (\<lambda>c m. dict_update m (matching_attributes c)) pair_candidates [];
          reasons = map reason pair_candidates;
          max_similarity = max_of (map similarity_score pair_candidates);
          confidence_boost = real (card (set reasons)) * (1 / 10);
          final_confidence = min (max_similarity + confidence_boost) 1
      in \<lparr> sku1 = fst (fst item),
           sku2 = snd (fst item),
           similarity_score = max_similarity,
           matching_attributes = all_matches,
           confidence = final_confidence,
           reason = join ''; '' (iter reasons) \<rparr>)"

text \<open>
  \<^verbatim>\<open>final_candidates.sort(key=lambda x: x.confidence, reverse=True)\<close> is a stable sort
  in descending order of confidence: records of equal confidence keep the order in which
  their pair keys were first seen. The parameter \<^verbatim>\<open>products_df\<close> of the source is
  never read and is left out.
\<close>

definition merge_candidates ::
  "(string list \<Rightarrow> string list) \<Rightarrow> DuplicateCandidate list \<Rightarrow> DuplicateCandidate list" where
  "merge_candidates iter candidates =
     sort_key (\<lambda>x. - confidence x) (map (merge_pair iter) (pair_map candidates))"

subsection \<open>Grouping lemmas\<close>

lemma append_to_keys:
  "map fst (append_to k v m) = (if k \<in> set (map fst m) then map fst m else map fst m @ [k])"
  by (induction m) (auto simp: rev_image_eqI)

lemma append_to_distinct:
  "distinct (map fst m) \<Longrightarrow> distinct (map fst (append_to k v m))"
  by (simp add: append_to_keys)

lemma append_to_map_of:
  "map_of (append_to k v m) k' =
     (if k' = k then Some ((case map_of m k of None \<Rightarrow> [] | Some vs \<Rightarrow> vs) @ [v])
      else map_of m k')"
  by (induction m) auto

lemma fold_append_to_distinct:
  "distinct (map fst m) \<Longrightarrow> distinct (map fst (fold (\<lambda>x. append_to (key x) x) xs m))"
  by (induction xs arbitrary: m) (simp_all add: append_to_distinct)

lemma fold_append_to_map_of:
  "map_of (fold (\<lambda>x. append_to (key x) x) xs m) k =
     (case map_of m k of
        None \<Rightarrow> (if filter (\<lambda>x. key x = k) xs = [] then None
                 else Some (filter (\<lambda>x. key x = k) xs))
      | Some vs \<Rightarrow> Some (vs @ filter (\<lambda>x. key x = k) xs))"
  by (induction xs arbitrary: m) (auto simp: append_to_map_of split: option.splits)

lemma group_by_key_distinct: "distinct (map fst (group_by_key key xs))"
  unfolding group_by_key_def by (rule fold_append_to_distinct) simp

lemma group_by_key_map_of:
  "map_of (group_by_key key xs) k =
     (if filter (\<lambda>x. key x = k) xs = [] then None else Some (filter (\<lambda>x. key x = k) xs))"
  unfolding group_by_key_def by (simp add: fold_append_to_map_of)

lemma group_by_key_iff:
  "(k, g) \<in> set (group_by_key key xs) \<longleftrightarrow> g = filter (\<lambda>x. key x = k) xs \<and> g \<noteq> []"
proof -
  have "(k, g) \<in> set (group_by_key key xs) \<longleftrightarrow> map_of (group_by_key key xs) k = Some g"
    using group_by_key_distinct [of key xs] by simp
  also have "\<dots> \<longleftrightarrow> g = filter (\<lambda>x. key x = k) xs \<and> g \<noteq> []"
    unfolding group_by_key_map_of by (cases "filter (\<lambda>x. key x = k) xs") auto
  finally show ?thesis .
qed

lemma group_by_key_nonempty: "(k, g) \<in> set (group_by_key key xs) \<Longrightarrow> g \<noteq> []"
  using group_by_key_iff [of k g key xs] by blast

lemma max_of_Max: "xs \<noteq> [] \<Longrightarrow> max_of xs = Max (set xs)"
proof (cases xs)
  case Nil
  then show "xs \<noteq> [] \<Longrightarrow> ?thesis" by simp
next
  case (Cons x ys)
  have "(\<lambda>y m. if m < y then y else m) = (max :: real \<Rightarrow> real \<Rightarrow> real)"
    by (intro ext) (simp add: max_def not_less [symmetric])
  then have "max_of xs = fold max ys x"
    using Cons by simp
  then show ?thesis
    using Cons Max.set_eq_fold [of x ys] by simp
qed

subsection \<open>Merged confidence\<close>


definition candidate :: "string \<Rightarrow> string \<Rightarrow> real \<Rightarrow> string \<Rightarrow> DuplicateCandidate" where
  "candidate a b s r =
     \<lparr> sku1 = a, sku2 = b, similarity_score = s, matching_attributes = [],
       confidence = s, reason = r \<rparr>"

lemmas merge_eval =
  merge_candidates_def pair_map_def group_by_key_def pair_key_def merge_pair_def
  dict_update_def candidate_def Let_def

lemma merge_candidates_set:
  "set (merge_candidates iter cs) = merge_pair iter ` set (pair_map cs)"
  by (simp add: merge_candidates_def)

lemma merge_candidates_iff:
  "m \<in> set (merge_candidates iter cs) \<longleftrightarrow>
     (\<exists>k. filter (\<lambda>c. pair_key c = k) cs \<noteq> [] \<and>
          m = merge_pair iter (k, filter (\<lambda>c. pair_key c = k) cs))"
  unfolding merge_candidates_set pair_map_def image_iff
  using group_by_key_iff [of _ _ pair_key cs] by (metis prod.collapse)











subsection \<open>Order of the input to \<open>merge_candidates\<close>\<close>

text \<open>
  What a merged record says about its pair apart from the texts: the pair key, the
  similarity score and the confidence. Two example inputs follow: two pairs of equal
  confidence, and one pair reported twice with different values for one attribute.
\<close>

definition summary :: "DuplicateCandidate \<Rightarrow> (string \<times> string) \<times> real \<times> real" where
  "summary m = ((sku1 m, sku2 m), similarity_score m, confidence m)"

definition ex_two_pairs :: "DuplicateCandidate list" where
  "ex_two_pairs =
     [\<lparr> sku1 = ''A'', sku2 = ''B'', similarity_score = 1, matching_attributes = [(''upc'', True)],
        confidence = 1, reason = ''Exact upc match: 1'' \<rparr>,
      \<lparr> sku1 = ''C'', sku2 = ''D'', similarity_score = 1, matching_attributes = [(''upc'', True)],
        confidence = 1, reason = ''Exact upc match: 2'' \<rparr>]"

definition ex_conflict :: "DuplicateCandidate list" where
  "ex_conflict =
     [\<lparr> sku1 = ''A'', sku2 = ''B'', similarity_score = 6 / 10, matching_attributes = [(''brand'', True)],
        confidence = 6 / 10, reason = ''Fuzzy attribute matching'' \<rparr>,
      \<lparr> sku1 = ''A'', sku2 = ''B'', similarity_score = 6 / 10, matching_attributes = [(''brand'', False)],
        confidence = 6 / 10, reason = ''Fuzzy attribute matching'' \<rparr>]"

lemma merge_pair_summary:
  assumes "g \<noteq> []"
  shows "summary (merge_pair iter (k, g)) =
           (k, Max (similarity_score ` set g),
            min (Max (similarity_score ` set g) + real (card (reason ` set g)) * (1 / 10)) 1)"
  using assms by (simp add: summary_def merge_pair_def Let_def max_of_Max)

lemma merge_candidates_keys_distinct:
  "distinct (map (\<lambda>m. (sku1 m, sku2 m)) (merge_candidates iter cs))"
proof -
  have "map (\<lambda>m. (sku1 m, sku2 m)) (map (merge_pair iter) (pair_map cs)) = map fst (pair_map cs)"
    by (simp add: merge_pair_def Let_def)
  then have "distinct (map (\<lambda>m. (sku1 m, sku2 m)) (map (merge_pair iter) (pair_map cs)))"
    by (simp only: pair_map_def group_by_key_distinct)
  moreover have "mset (merge_candidates iter cs) = mset (map (merge_pair iter) (pair_map cs))"
    by (simp add: merge_candidates_def)
  then have "mset (map (\<lambda>m. (sku1 m, sku2 m)) (merge_candidates iter cs))
      = mset (map (\<lambda>m. (sku1 m, sku2 m)) (map (merge_pair iter) (pair_map cs)))"
    by (metis mset_map)
  ultimately show ?thesis
    by (metis mset_eq_imp_distinct_iff)
qed

lemma merge_candidates_summary_distinct:
  "distinct (map summary (merge_candidates iter cs))"
proof -
  have "map (\<lambda>m. (sku1 m, sku2 m)) (merge_candidates iter cs)
      = map fst (map summary (merge_candidates iter cs))"
    by (simp add: summary_def)
  then show ?thesis
    using merge_candidates_keys_distinct [of iter cs] by (metis distinct_map)
qed

lemma merge_candidates_summary_subset:
  assumes "set cs = set cs'"
  shows "summary ` set (merge_candidates iter cs) \<subseteq> summary ` set (merge_candidates iter cs')"
proof
  fix s assume "s \<in> summary ` set (merge_candidates iter cs)"
  then obtain m where "m \<in> set (merge_candidates iter cs)" and sm: "s = summary m"
    by blast
  then obtain k where g: "filter (\<lambda>c. pair_key c = k) cs \<noteq> []"
    and s: "s = summary (merge_pair iter (k, filter (\<lambda>c. pair_key c = k) cs))"
    unfolding merge_candidates_iff by blast
  have sets: "set (filter (\<lambda>c. pair_key c = k) cs') = set (filter (\<lambda>c. pair_key c = k) cs)"
    using assms by simp
  with g have g': "filter (\<lambda>c. pair_key c = k) cs' \<noteq> []"
    by (metis set_empty)
  have s': "s = summary (merge_pair iter (k, filter (\<lambda>c. pair_key c = k) cs'))"
    unfolding s merge_pair_summary [OF g] merge_pair_summary [OF g'] sets ..
  from g' have "merge_pair iter (k, filter (\<lambda>c. pair_key c = k) cs') \<in> set (merge_candidates iter cs')"
    unfolding merge_candidates_iff by (intro exI [of _ k] conjI refl)
  then show "s \<in> summary ` set (merge_candidates iter cs')"
    unfolding s' by (rule imageI)
qed

lemma merge_candidates_sorted:
  "sorted (map (\<lambda>m. - confidence m) (merge_candidates iter cs))"
  by (simp add: merge_candidates_def)

text \<open>
  Claim C2, as amended. For every list of candidates and every permutation of it,
  \<open>merge_candidates\<close> returns one record per unordered pair, with the same pair keys and
  for each pair the same similarity score and the same confidence, and the same descending
  sequence of confidences. (The relative order of records of equal confidence, the value of
  a matching attribute reported with different values, and the order of the reasons inside
  the reason text are not covered.)
\<close>

theorem merge_order_independent_summary:
  assumes "mset cs = mset cs'"
  shows "mset (map summary (merge_candidates iter cs)) = mset (map summary (merge_candidates iter cs'))
       \<and> distinct (map (\<lambda>m. (sku1 m, sku2 m)) (merge_candidates iter cs))
       \<and> map confidence (merge_candidates iter cs) = map confidence (merge_candidates iter cs')"
proof (intro conjI)
  from assms have sets: "set cs = set cs'"
    by (rule mset_eq_setD)
  have "set (map summary (merge_candidates iter cs)) = set (map summary (merge_candidates iter cs'))"
    using merge_candidates_summary_subset [OF sets, of iter]
      merge_candidates_summary_subset [OF sets [symmetric], of iter] by auto
  then show ms: "mset (map summary (merge_candidates iter cs))
      = mset (map summary (merge_candidates iter cs'))"
    using merge_candidates_summary_distinct [of iter cs] merge_candidates_summary_distinct [of iter cs']
    by (simp only: set_eq_iff_mset_eq_distinct)
  show "distinct (map (\<lambda>m. (sku1 m, sku2 m)) (merge_candidates iter cs))"
    by (rule merge_candidates_keys_distinct)
  have neg: "mset (map (\<lambda>m. - confidence m) xs)
      = image_mset (\<lambda>s. - snd (snd s)) (mset (map summary xs))" for xs
    by (simp add: summary_def multiset.map_comp comp_def)
  have "mset (map (\<lambda>m. - confidence m) (merge_candidates iter cs))
      = mset (map (\<lambda>m. - confidence m) (merge_candidates iter cs'))"
    by (simp only: neg ms)
  then have "map (\<lambda>m. - confidence m) (merge_candidates iter cs)
      = map (\<lambda>m. - confidence m) (merge_candidates iter cs')"
    using merge_candidates_sorted [of iter cs] merge_candidates_sorted [of iter cs']
    by (metis properties_for_sort)
  then have "map uminus (map (\<lambda>m. - confidence m) (merge_candidates iter cs))
      = map uminus (map (\<lambda>m. - confidence m) (merge_candidates iter cs'))"
    by (rule arg_cong)
  then show "map confidence (merge_candidates iter cs) = map confidence (merge_candidates iter cs')"
    by (simp add: comp_def)
qed

theorem merge_order_independent_summary_witness:
  "mset (rev ex_two_pairs) = mset ex_two_pairs
   \<and> map confidence (merge_candidates remdups (rev ex_two_pairs)) = [1, 1]
   \<and> map confidence (merge_candidates remdups ex_two_pairs) = [1, 1]
   \<and> mset (map summary (merge_candidates remdups (rev ex_two_pairs)))
       = {# ((''A'', ''B''), 1, 1), ((''C'', ''D''), 1, 1) #}"
proof -
  have p: "mset (rev ex_two_pairs) = mset ex_two_pairs"
    by simp
  have "map confidence (merge_candidates remdups ex_two_pairs) = [1, 1]"
    by (simp add: merge_eval ex_two_pairs_def)
  moreover have "mset (map summary (merge_candidates remdups ex_two_pairs))
      = {# ((''A'', ''B''), 1, 1), ((''C'', ''D''), 1, 1) #}"
    by (simp add: merge_eval ex_two_pairs_def summary_def)
  ultimately show ?thesis
    using merge_order_independent_summary [OF p, of remdups] p by simp
qed

text \<open>
  Claim C2 as stated fails. Reversing the two-pair input reverses the output order (the sort
  is stable and both records have confidence 1), and reversing the conflicting reports flips
  the merged value of \<open>brand\<close> (\<^verbatim>\<open>dict.update\<close>: the last report wins), whatever the set
  iteration order.
\<close>

theorem merge_order_dependent:
  "mset (rev ex_two_pairs) = mset ex_two_pairs
   \<and> (\<forall>iter. map sku1 (merge_candidates iter ex_two_pairs) = [''A'', ''C'']
           \<and> map sku1 (merge_candidates iter (rev ex_two_pairs)) = [''C'', ''A''])
   \<and> mset (rev ex_conflict) = mset ex_conflict
   \<and> (\<forall>iter. map matching_attributes (merge_candidates iter ex_conflict) = [[(''brand'', False)]]
           \<and> map matching_attributes (merge_candidates iter (rev ex_conflict)) = [[(''brand'', True)]])"
  by (simp add: merge_eval ex_two_pairs_def ex_conflict_def)

section \<open>\<^verbatim>\<open>DuplicateDetector.group_duplicates\<close>\<close>

text \<open>
  \<^verbatim>\<open>graph = defaultdict(set)\<close>: the keys in insertion order, each with the elements of
  its set in insertion order.
\<close>

type_synonym graph = "(string \<times> string list) list"



text \<open>
  \<^verbatim>\<open>for neighbor in graph[node]\<close>: the set of \<open>node\<close> in the interpreter's
  iteration order.
\<close>

definition neighbours :: "(string list \<Rightarrow> string list) \<Rightarrow> graph \<Rightarrow> string \<Rightarrow> string list" where
  "neighbours iter graph node = (case map_of graph node of None \<Rightarrow> [] | Some vs \<Rightarrow> iter vs)"

text \<open>
  The nested function \<^verbatim>\<open>dfs(node, group)\<close> and the loop that calls it.
  \<open>dfs_loop iter graph nodes (visited, grp)\<close> runs
  \<^verbatim>\<open>for n in nodes: dfs(n, group)\<close> on the state of the two sets \<^verbatim>\<open>visited\<close> and
  \<^verbatim>\<open>group\<close> and returns their final contents; \<^verbatim>\<open>dfs(node, group)\<close> itself is
  \<open>dfs_loop iter graph [node]\<close>. The recursion is nested, as in the source: the
  remaining neighbours are visited in the state the first neighbour's call leaves behind.
  Termination: every recursive visit marks a new key of the graph.
\<close>

function dfs_loop ::
  "(string list \<Rightarrow> string list) \<Rightarrow> graph \<Rightarrow> string list \<Rightarrow> string set \<times> string set
     \<Rightarrow> string set \<times> string set" where
  "dfs_loop iter graph [] s = s"
| "dfs_loop iter graph (node # rest) (visited, grp) =
     (if node \<in> visited then dfs_loop iter graph rest (visited, grp)
      else dfs_loop iter graph rest
             (dfs_loop iter graph (neighbours iter graph node)
                (insert node visited, insert node grp)))"
  by pat_completeness auto

lemma dfs_loop_visited_grows:
  "dfs_loop_dom (iter, graph, nodes, s) \<Longrightarrow> fst s \<subseteq> fst (dfs_loop iter graph nodes s)"
  by (induction iter graph nodes s rule: dfs_loop.pinduct) (auto simp: dfs_loop.psimps)

lemma neighbours_no_key: "node \<notin> fst ` set graph \<Longrightarrow> neighbours iter graph node = []"
  by (simp add: neighbours_def map_of_eq_None_iff [THEN iffD2])

termination dfs_loop
proof (relation "measures [\<lambda>(iter, graph, nodes, s). card (fst ` set graph - fst s),
                          \<lambda>(iter, graph, nodes, s). length nodes]", goal_cases)
  case 1
  then show ?case by simp
next
  case (2 iter graph node rest visited grp)
  then show ?case by simp
next
  case (3 iter graph node rest visited grp)
  show ?case
  proof (cases "node \<in> fst ` set graph")
    case True
    with 3 have "fst ` set graph - insert node visited \<subset> fst ` set graph - visited"
      by auto
    then have "card (fst ` set graph - insert node visited) < card (fst ` set graph - visited)"
      by (intro psubset_card_mono) auto
    then show ?thesis by simp
  next
    case False
    then show ?thesis by (simp add: neighbours_no_key)
  qed
next
  case (4 iter graph node rest visited grp)
  have "insert node visited
      \<subseteq> fst (dfs_loop iter graph (neighbours iter graph node) (insert node visited, insert node grp))"
    using dfs_loop_visited_grows [OF 4(2)] by simp
  then have "fst ` set graph
        - fst (dfs_loop iter graph (neighbours iter graph node) (insert node visited, insert node grp))
      \<subseteq> fst ` set graph - visited"
    by auto
  then have "card (fst ` set graph
        - fst (dfs_loop iter graph (neighbours iter graph node) (insert node visited, insert node grp)))
      \<le> card (fst ` set graph - visited)"
    by (intro card_mono) auto
  then show ?case by auto
qed




subsection \<open>The traversal visits connected components\<close>










subsection \<open>The graph built from the surviving pairs\<close>




























section \<open>Attribute matching\<close>

subsection \<open>Strings\<close>

text \<open>
  \<^verbatim>\<open>str.lower\<close>, \<^verbatim>\<open>str.strip\<close> and \<^verbatim>\<open>str.split\<close> on ASCII text; the
  character classes are those of Python's \<^verbatim>\<open>re\<close> restricted to ASCII.
\<close>

definition upper_letters :: string where "upper_letters = ''ABCDEFGHIJKLMNOPQRSTUVWXYZ''"
definition lower_letters :: string where "lower_letters = ''abcdefghijklmnopqrstuvwxyz''"
definition digits :: string where "digits = ''0123456789''"
definition whitespace :: string where
  "whitespace = [CHR '' '', CHR 0x09, CHR 0x0A, CHR 0x0B, CHR 0x0C, CHR 0x0D]"

definition lower_char :: "char \<Rightarrow> char" where
  "lower_char c = (case map_of (zip upper_letters lower_letters) c of Some l \<Rightarrow> l | None \<Rightarrow> c)"

definition lower :: "string \<Rightarrow> string" where
  "lower s = map lower_char s"

definition lstrip :: "string \<Rightarrow> string" where
  "lstrip s = dropWhile (\<lambda>c. c \<in> set whitespace) s"

definition strip :: "string \<Rightarrow> string" where
  "strip s = rev (lstrip (rev (lstrip s)))"

fun split_ws :: "string \<Rightarrow> string \<Rightarrow> string list" where
  "split_ws w [] = (if w = [] then [] else [w])"
| "split_ws w (c # s) =
     (if c \<in> set whitespace then (if w = [] then split_ws [] s else w # split_ws [] s)
      else split_ws (w @ [c]) s)"

definition split :: "string \<Rightarrow> string list" where
  "split s = split_ws [] s"

subsection \<open>Regular expressions\<close>

text \<open>
  The fragment of Python's \<^verbatim>\<open>re\<close> that the detector uses: literal characters
  (\<open>Ch\<close>, folded under \<^verbatim>\<open>re.IGNORECASE\<close>), character classes, concatenation,
  ordered alternation, greedy optional and starred parts, groups, the word boundary and
  the end-of-text anchor.
  A matching state is the character before the position, the text from the position on and
  the groups captured so far. \<open>rmatch\<close> lists the states in which a match can end, in
  the order in which a backtracking matcher tries them; the first one is the match Python
  reports.
\<close>

datatype rx =
    Ch char
  | Chars "char list"
  | Seq rx rx
  | Alt rx rx
  | Opt rx
  | Star rx
  | Grp rx
  | WordB
  | Eol

type_synonym mstate = "char option \<times> string \<times> string list"

definition word_char :: "char option \<Rightarrow> bool" where
  "word_char p = (case p of None \<Rightarrow> False
                  | Some c \<Rightarrow> c \<in> set (upper_letters @ lower_letters @ digits @ ''_''))"

function rmatch :: "bool \<Rightarrow> rx \<Rightarrow> mstate \<Rightarrow> mstate list" where
  "rmatch ic (Ch x) st =
     (case fst (snd st) of [] \<Rightarrow> []
      | c # s' \<Rightarrow> if c = x \<or> (ic \<and> lower_char c = lower_char x)
                  then [(Some c, s', snd (snd st))] else [])"
| "rmatch ic (Chars cs) st =
     (case fst (snd st) of [] \<Rightarrow> []
      | c # s' \<Rightarrow> if c \<in> set cs then [(Some c, s', snd (snd st))] else [])"
| "rmatch ic (Seq a b) st = concat (map (rmatch ic b) (rmatch ic a st))"
| "rmatch ic (Alt a b) st = rmatch ic a st @ rmatch ic b st"
| "rmatch ic (Opt a) st = rmatch ic a st @ [st]"
| "rmatch ic (Star a) st =
     concat (map (rmatch ic (Star a))
               (filter (\<lambda>st'. length (fst (snd st')) < length (fst (snd st))) (rmatch ic a st)))
     @ [st]"
| "rmatch ic (Grp a) st =
     map (\<lambda>st'. (fst st', fst (snd st'),
                  snd (snd st') @ [take (length (fst (snd st)) - length (fst (snd st'))) (fst (snd st))]))
       (rmatch ic a st)"
| "rmatch ic WordB st =
     (if word_char (fst st) \<noteq> word_char (case fst (snd st) of [] \<Rightarrow> None | c # _ \<Rightarrow> Some c)
      then [st] else [])"
| "rmatch ic Eol st = (if fst (snd st) = [] \<or> fst (snd st) = [CHR 0x0A] then [st] else [])"
  by pat_completeness auto
termination
  by (relation "measures [\<lambda>(ic, r, st). size r, \<lambda>(ic, r, st). length (fst (snd st))]") auto

definition word :: "string \<Rightarrow> rx" where
  "word w = foldr (\<lambda>c r. Seq (Ch c) r) (butlast w) (Ch (last w))"

definition alts :: "rx list \<Rightarrow> rx" where
  "alts rs = foldr Alt (butlast rs) (last rs)"

definition Plus :: "rx \<Rightarrow> rx" where
  "Plus r = Seq r (Star r)"

text \<open>\<^verbatim>\<open>re.match(r, s)\<close>: the groups of the match at the start of \<open>s\<close>, if any.\<close>

definition re_match :: "bool \<Rightarrow> rx \<Rightarrow> string \<Rightarrow> string list option" where
  "re_match ic r s = (case rmatch ic r (None, s, []) of [] \<Rightarrow> None | st # _ \<Rightarrow> Some (snd (snd st)))"

text \<open>
  \<^verbatim>\<open>re.sub(r, '', s)\<close>: the leftmost matches are cut out from left to right. (An
  empty match is replaced by the empty text, which leaves the character in place.)
\<close>

function re_sub_from :: "bool \<Rightarrow> rx \<Rightarrow> char option \<Rightarrow> string \<Rightarrow> string" where
  "re_sub_from ic r p [] = []"
| "re_sub_from ic r p (c # s) =
     (case rmatch ic r (p, c # s, []) of
        [] \<Rightarrow> c # re_sub_from ic r (Some c) s
      | st # _ \<Rightarrow>
          if length (fst (snd st)) < length (c # s) then re_sub_from ic r (fst st) (fst (snd st))
          else c # re_sub_from ic r (Some c) s)"
  by pat_completeness auto
termination
  by (relation "measure (\<lambda>(ic, r, p, s). length s)") auto

definition re_sub :: "bool \<Rightarrow> rx \<Rightarrow> string \<Rightarrow> string" where
  "re_sub ic r s = re_sub_from ic r None s"

text \<open>The pattern of \<^verbatim>\<open>_match_size\<close>: digits, an optional fraction, spaces, letters.\<close>

definition size_pattern :: rx where
  "size_pattern =
     Seq (Grp (Seq (Plus (Chars digits)) (Opt (Seq (Ch (CHR ''.'')) (Plus (Chars digits))))))
       (Seq (Star (Chars whitespace)) (Grp (Star (Chars (lower_letters @ upper_letters)))))"

subsection \<open>Cells of a catalog column\<close>

text \<open>
  A cell of a text column holds a \<^verbatim>\<open>str\<close>, or is missing: \<^verbatim>\<open>None\<close> or the float
  \<^verbatim>\<open>nan\<close>, the two forms pandas uses. \<open>py_str\<close> is \<^verbatim>\<open>str(x)\<close>, \<open>truthy\<close> is
  the truth value of \<^verbatim>\<open>x\<close> in a condition, \<open>notna\<close> is \<^verbatim>\<open>pandas.notna\<close>.
\<close>

datatype cell = PyNone | NaN | Str string

fun py_str :: "cell \<Rightarrow> string" where
  "py_str PyNone = ''None''"
| "py_str NaN = ''nan''"
| "py_str (Str s) = s"

fun truthy :: "cell \<Rightarrow> bool" where
  "truthy PyNone = False"
| "truthy NaN = True"
| "truthy (Str s) = (s \<noteq> [])"

fun notna :: "cell \<Rightarrow> bool" where
  "notna PyNone = False"
| "notna NaN = False"
| "notna (Str s) = True"

text \<open>\<^verbatim>\<open>float(s)\<close> for digits with an optional fraction, as an exact real.\<close>

definition digit_val :: "char \<Rightarrow> nat" where
  "digit_val c = (case map_of (zip digits [0, 1, 2, 3, 4, 5, 6, 7, 8, 9]) c of Some d \<Rightarrow> d | None \<Rightarrow> 0)"

definition decimal :: "string \<Rightarrow> nat" where
  "decimal ds = fold (\<lambda>c n. 10 * n + digit_val c) ds 0"

definition py_float :: "string \<Rightarrow> real" where
  "py_float s =
     (let ip = takeWhile (\<lambda>c. c \<noteq> CHR ''.'') s;
          fp = drop 1 (dropWhile (\<lambda>c. c \<noteq> CHR ''.'') s)
      in real (decimal ip) + real (decimal fp) / 10 ^ length fp)"

subsection \<open>\<^verbatim>\<open>DuplicateDetector._match_size\<close>\<close>

definition conversions :: "((string \<times> string) \<times> real) list" where
  "conversions =
     [((''oz'', ''ml''), 295735 / 10000),
      ((''ml'', ''oz''), 33814 / 1000000),
      ((''lb'', ''kg''), 453592 / 1000000),
      ((''kg'', ''lb''), 220462 / 100000),
      ((''in'', ''cm''), 254 / 100),
      ((''cm'', ''in''), 393701 / 1000000)]"

definition match_size :: "cell \<Rightarrow> cell \<Rightarrow> bool" where
  "match_size size1 size2 =
     (if \<not> truthy size1 \<or> \<not> truthy size2 then False
      else if lower (py_str size1) = lower (py_str size2) then True
      else (case (re_match False size_pattern (py_str size1),
                  re_match False size_pattern (py_str size2)) of
              (Some [g1, u1], Some [g2, u2]) \<Rightarrow>
                (let val1 = py_float g1; unit1 = lower u1;
                     val2 = py_float g2; unit2 = lower u2
                 in if unit1 = unit2 then \<bar>val1 - val2\<bar> < 1 / 10
                    else (case map_of conversions (unit1, unit2) of
                            Some factor \<Rightarrow> \<bar>val1 * factor - val2\<bar> < 1 / 10
                          | None \<Rightarrow> False))
            | _ \<Rightarrow> False))"





section \<open>Candidate generation over a catalog\<close>

subsection \<open>The catalog\<close>

text \<open>
  The catalog is a pandas \<^verbatim>\<open>DataFrame\<close>, typed by the kind of its columns:
  \<^item> \<^verbatim>\<open>sku\<close>, the required key, a \<^verbatim>\<open>str\<close> in every row;
  \<^item> the text columns (\<open>columns\<close>, among them the identifiers, \<^verbatim>\<open>brand_name\<close>,
    \<^verbatim>\<open>product_name\<close>, \<^verbatim>\<open>color\<close>, \<^verbatim>\<open>material\<close>, \<^verbatim>\<open>size\<close>), whose cells are
    a \<^verbatim>\<open>str\<close> or missing;
  \<^item> the columns \<^verbatim>\<open><field>_normalized\<close> (\<open>norm_columns\<close>) that the fuzzy strategy
    writes; they hold a \<^verbatim>\<open>str\<close> in every row;
  \<^item> \<^verbatim>\<open>price\<close>, a float column when present (\<open>has_price\<close>); a missing price is
    \<^verbatim>\<open>nan\<close>, here \<open>None\<close>.
  Every row of a frame has every column of the frame. \<open>get row col\<close> is
  \<^verbatim>\<open>row.get(col)\<close> (and \<^verbatim>\<open>row[col]\<close> where the source has checked the column).
\<close>

record product =
  sku :: string
  attrs :: "string \<rightharpoonup> cell"
  normalized :: "string \<rightharpoonup> string"
  price :: "real option"

record dataframe =
  columns :: "string list"
  norm_columns :: "string list"
  has_price :: bool
  rows :: "product list"

definition get :: "product \<Rightarrow> string \<Rightarrow> cell" where
  "get row col = (case attrs row col of None \<Rightarrow> PyNone | Some v \<Rightarrow> v)"

definition get_normalized :: "product \<Rightarrow> string \<Rightarrow> string" where
  "get_normalized row col = (case normalized row col of None \<Rightarrow> [] | Some s \<Rightarrow> s)"

text \<open>
  The nested loops \<^verbatim>\<open>for i in range(len(xs)): for j in range(i + 1, len(xs))\<close>: the
  pairs \<^verbatim>\<open>(xs[i], xs[j])\<close> in the order the loops reach them.
\<close>

fun all_pairs :: "'a list \<Rightarrow> ('a \<times> 'a) list" where
  "all_pairs [] = []"
| "all_pairs (x # xs) = map (Pair x) xs @ all_pairs xs"

subsection \<open>\<^verbatim>\<open>DuplicateDetector._find_by_identifiers\<close>\<close>

definition identifier_columns :: "string list" where
  "identifier_columns = [''upc'', ''ean'', ''isbn'', ''asin'', ''model_number'']"

definition identifier_candidate :: "string \<Rightarrow> string \<Rightarrow> string \<times> string \<Rightarrow> DuplicateCandidate" where
  "identifier_candidate col identifier p =
     \<lparr> sku1 = fst p, sku2 = snd p, similarity_score = 1,
       matching_attributes = [(col, True)], confidence = 1,
       reason = ''Exact '' @ col @ '' match: '' @ identifier \<rparr>"

text \<open>
  The body of the loop over the identifier columns. \<^verbatim>\<open>groupby\<close> yields the groups
  in ascending order of the key and keeps the row order inside a group.
\<close>

definition find_by_identifiers_col :: "dataframe \<Rightarrow> string \<Rightarrow> DuplicateCandidate list" where
  "find_by_identifiers_col df col =
     (if col \<in> set (columns df)
      then (let present = filter (\<lambda>row. notna (get row col)) (rows df);
                keys = sort (remdups (map (\<lambda>row. py_str (get row col)) present))
            in concat (map (\<lambda>identifier.
                 (let grp = filter (\<lambda>row. get row col = Str identifier) present
                  in if length grp > 1
                     then map (identifier_candidate col identifier) (all_pairs (map sku grp))
                     else []))
               keys))
      else [])"

definition find_by_identifiers :: "dataframe \<Rightarrow> DuplicateCandidate list" where
  "find_by_identifiers df = concat (map (find_by_identifiers_col df) identifier_columns)"

subsection \<open>Matching rules of the fuzzy strategy\<close>

definition attribute_weights :: "(string \<times> real) list" where
  "attribute_weights =
     [(''brand'', 25 / 100), (''model_number'', 20 / 100), (''upc'', 30 / 100), (''ean'', 30 / 100),
      (''size'', 15 / 100), (''color'', 10 / 100), (''material'', 5 / 100), (''price'', 5 / 100)]"

definition weight :: "string \<Rightarrow> real" where
  "weight k = (case map_of attribute_weights k of None \<Rightarrow> 0 | Some w \<Rightarrow> w)"

definition brand_variations :: "(string \<times> string list) list" where
  "brand_variations =
     [(''nike'', [''nike'', ''nike inc'', ''nike incorporated'']),
      (''adidas'', [''adidas'', ''adidas ag'', ''adidas originals'']),
      (''apple'', [''apple'', ''apple inc'', ''apple incorporated'']),
      (''samsung'', [''samsung'', ''samsung electronics'', ''samsung group'']),
      (''sony'', [''sony'', ''sony corporation'', ''sony corp''])]"

text \<open>\<^verbatim>\<open>xs in ys\<close> on strings.\<close>

fun is_substring :: "string \<Rightarrow> string \<Rightarrow> bool" where
  "is_substring xs [] = (xs = [])"
| "is_substring xs (y # ys) = (take (length xs) (y # ys) = xs \<or> is_substring xs ys)"

definition match_brand :: "string \<Rightarrow> string \<Rightarrow> bool" where
  "match_brand brand1 brand2 =
     (if brand1 = brand2 then True
      else if list_ex (\<lambda>(canonical, variations). brand1 \<in> set variations \<and> brand2 \<in> set variations)
                brand_variations then True
      else if is_substring brand1 brand2 \<or> is_substring brand2 brand1 then True
      else False)"

text \<open>
  \<^verbatim>\<open>_match_price\<close>: with a \<^verbatim>\<open>nan\<close> price neither comparison with 0 holds and the
  final comparison with the tolerance is false.
\<close>

definition match_price :: "real option \<Rightarrow> real option \<Rightarrow> real \<Rightarrow> bool" where
  "match_price price1 price2 tolerance =
     (case (price1, price2) of
        (Some p1, Some p2) \<Rightarrow>
          if p1 = 0 \<or> p2 = 0 then False
          else \<bar>p1 - p2\<bar> / max p1 p2 \<le> tolerance
      | _ \<Rightarrow> False)"

definition calculate_name_similarity :: "string \<Rightarrow> string \<Rightarrow> real" where
  "calculate_name_similarity name1 name2 =
     (let words1 = set (split (lower name1));
          words2 = set (split (lower name2))
      in if words1 = {} \<or> words2 = {} then 0
         else real (card (words1 \<inter> words2)) / real (card (words1 \<union> words2)))"

subsection \<open>\<^verbatim>\<open>DuplicateDetector._find_by_fuzzy_attributes\<close>\<close>

definition text_fields :: "string list" where
  "text_fields = [''brand_name'', ''product_name'', ''color'', ''material'']"

text \<open>
  The first loop writes the column \<^verbatim>\<open><field>_normalized\<close> into the frame it was given:
  \<^verbatim>\<open>df[f'{field}_normalized'] = df[field].fillna('').str.lower().str.strip()\<close>.
\<close>

fun fillna :: "cell \<Rightarrow> string" where
  "fillna PyNone = []"
| "fillna NaN = []"
| "fillna (Str s) = s"

definition normalize_field :: "string \<Rightarrow> dataframe \<Rightarrow> dataframe" where
  "normalize_field field df =
     (if field \<in> set (columns df)
      then df \<lparr> norm_columns :=
                  (if field @ ''_normalized'' \<in> set (norm_columns df) then norm_columns df
                   else norm_columns df @ [field @ ''_normalized'']),
                rows := map (\<lambda>row. row \<lparr> normalized :=
                               (normalized row)(field @ ''_normalized'' \<mapsto>
                                  strip (lower (fillna (get row field)))) \<rparr>)
                          (rows df) \<rparr>
      else df)"

text \<open>
  The four blocks of the loop body: each returns the entries it adds to \<^verbatim>\<open>matches\<close>
  and the amount it adds to \<^verbatim>\<open>match_score\<close>.
\<close>

definition brand_part :: "dataframe \<Rightarrow> product \<Rightarrow> product \<Rightarrow> (string \<times> bool) list \<times> real" where
  "brand_part df row1 row2 =
     (if ''brand_name_normalized'' \<in> set (norm_columns df)
      then (let brand_match = match_brand (get_normalized row1 ''brand_name_normalized'')
                                          (get_normalized row2 ''brand_name_normalized'')
            in ([(''brand'', brand_match)], if brand_match then weight ''brand'' else 0))
      else ([], 0))"

definition size_part :: "dataframe \<Rightarrow> product \<Rightarrow> product \<Rightarrow> (string \<times> bool) list \<times> real" where
  "size_part df row1 row2 =
     (if ''size'' \<in> set (columns df)
      then (let size_match = match_size (get row1 ''size'') (get row2 ''size'')
            in ([(''size'', size_match)], if size_match then weight ''size'' else 0))
      else ([], 0))"

definition price_part :: "dataframe \<Rightarrow> product \<Rightarrow> product \<Rightarrow> (string \<times> bool) list \<times> real" where
  "price_part df row1 row2 =
     (if has_price df
      then (let price_match = match_price (price row1) (price row2) (10 / 100)
            in ([(''price'', price_match)], if price_match then weight ''price'' else 0))
      else ([], 0))"

definition name_part :: "dataframe \<Rightarrow> product \<Rightarrow> product \<Rightarrow> real" where
  "name_part df row1 row2 =
     (if ''product_name_normalized'' \<in> set (norm_columns df)
      then (let name_sim = calculate_name_similarity
                             (get_normalized row1 ''product_name_normalized'')
                             (get_normalized row2 ''product_name_normalized'')
            in if name_sim > 8 / 10 then 2 / 10 else 0)
      else 0)"

definition fuzzy_pair :: "dataframe \<Rightarrow> product \<times> product \<Rightarrow> DuplicateCandidate list" where
  "fuzzy_pair df p =
     (let row1 = fst p; row2 = snd p;
          matches = fst (brand_part df row1 row2) @ fst (size_part df row1 row2)
                    @ fst (price_part df row1 row2);
          match_score = 0 + snd (brand_part df row1 row2) + snd (size_part df row1 row2)
                        + snd (price_part df row1 row2) + name_part df row1 row2
      in if match_score \<ge> 5 / 10
         then [\<lparr> sku1 = sku row1, sku2 = sku row2, similarity_score = match_score,
                 matching_attributes = matches, confidence = match_score,
                 reason = ''Fuzzy attribute matching'' \<rparr>]
         else [])"

text \<open>The strategy returns its candidates; the frame it leaves behind is the second component.\<close>

definition find_by_fuzzy_attributes :: "dataframe \<Rightarrow> DuplicateCandidate list \<times> dataframe" where
  "find_by_fuzzy_attributes df =
     (let df' = fold normalize_field text_fields df
      in (concat (map (fuzzy_pair df') (all_pairs (rows df'))), df'))"

subsection \<open>\<^verbatim>\<open>DuplicateDetector._find_by_patterns\<close>\<close>

text \<open>
  The two suffix patterns of the SKU heuristic (both under \<^verbatim>\<open>re.IGNORECASE\<close>) and the
  three patterns of the name heuristic.
\<close>

definition sku_size_suffix :: rx where
  "sku_size_suffix =
     Seq (Chars ''-_'')
       (Seq (Grp (alts [word ''S'', word ''M'', word ''L'', word ''XL'', word ''XXL'',
                        Plus (Chars digits)]))
          Eol)"

definition sku_color_suffix :: rx where
  "sku_color_suffix =
     Seq (Chars ''-_'')
       (Seq (Grp (alts [word ''BLACK'', word ''WHITE'', word ''RED'', word ''BLUE'', word ''GREEN'']))
          Eol)"

definition base_pattern :: "string \<Rightarrow> string" where
  "base_pattern s = re_sub True sku_color_suffix (re_sub True sku_size_suffix s)"

definition sku_pattern_candidates :: "dataframe \<Rightarrow> DuplicateCandidate list" where
  "sku_pattern_candidates df =
     concat (map (\<lambda>item.
                (if length (snd item) > 1
                 then map (\<lambda>p. \<lparr> sku1 = sku (fst p), sku2 = sku (snd p), similarity_score = 85 / 100,
                                  matching_attributes = [(''sku_pattern'', True)],
                                  confidence = 85 / 100,
                                  reason = ''Similar SKU pattern: '' @ fst item \<rparr>)
                        (all_pairs (snd item))
                 else []))
            (group_by_key (\<lambda>row. base_pattern (sku row)) (rows df)))"

definition gender_words :: rx where
  "gender_words =
     Seq WordB
       (Seq (Grp (alts [Seq (word ''men'') (Opt (Ch (CHR ''s''))),
                        Seq (word ''women'') (Opt (Ch (CHR ''s''))),
                        Seq (word ''kid'') (Opt (Ch (CHR ''s''))),
                        Seq (word ''boy'') (Opt (Ch (CHR ''s''))),
                        Seq (word ''girl'') (Opt (Ch (CHR ''s'')))]))
          WordB)"

definition size_words :: rx where
  "size_words =
     Seq WordB
       (Seq (Grp (alts [word ''small'', word ''medium'', word ''large'',
                        Seq (Opt (Chars ''xs'')) (Chars ''xls'')]))
          WordB)"

definition measure_words :: rx where
  "measure_words =
     Seq WordB
       (Seq (Plus (Chars digits))
          (Seq (Opt (Grp (Seq (Ch (CHR ''.'')) (Plus (Chars digits)))))
             (Seq (Star (Chars whitespace))
                (Seq (Grp (alts [word ''oz'', word ''ml'', word ''lb'', word ''kg'', word ''g'']))
                   WordB))))"

definition clean_name :: "product \<Rightarrow> string" where
  "clean_name row =
     (let name = lower (py_str (get row ''product_name''));
          clean = re_sub False gender_words name;
          clean = re_sub False size_words clean;
          clean = re_sub False measure_words clean
      in join '' '' (split clean))"

definition name_pattern_candidates :: "dataframe \<Rightarrow> DuplicateCandidate list" where
  "name_pattern_candidates df =
     (if ''product_name'' \<in> set (columns df)
      then concat (map (\<lambda>item.
                (if length (snd item) > 1
                 then map (\<lambda>p. \<lparr> sku1 = sku (fst p), sku2 = sku (snd p), similarity_score = 80 / 100,
                                  matching_attributes = [(''name_pattern'', True)],
                                  confidence = 80 / 100,
                                  reason = ''Similar name pattern'' \<rparr>)
                        (all_pairs (snd item))
                 else []))
            (group_by_key clean_name (filter (\<lambda>row. clean_name row \<noteq> []) (rows df))))
      else [])"

definition find_by_patterns :: "dataframe \<Rightarrow> DuplicateCandidate list" where
  "find_by_patterns df = sku_pattern_candidates df @ name_pattern_candidates df"

subsection \<open>\<^verbatim>\<open>DuplicateDetector.detect_duplicates_multi_strategy\<close>\<close>

text \<open>
  The embedding strategy of the source is a placeholder that returns no candidate. The frame
  that the fuzzy strategy has written to is the one the pattern strategy reads, and the one
  the caller holds afterwards.
\<close>

definition find_by_embedding_similarity :: "'e \<Rightarrow> real \<Rightarrow> DuplicateCandidate list" where
  "find_by_embedding_similarity embeddings_df threshold = []"

definition detect_duplicates_multi_strategy ::
  "(string list \<Rightarrow> string list) \<Rightarrow> dataframe \<Rightarrow> 'e \<Rightarrow> real
     \<Rightarrow> DuplicateCandidate list \<times> dataframe" where
  "detect_duplicates_multi_strategy iter products_df embeddings_df similarity_threshold =
     (let embedding_candidates = find_by_embedding_similarity embeddings_df similarity_threshold;
          identifier_candidates = find_by_identifiers products_df;
          (attribute_candidates, products_df') = find_by_fuzzy_attributes products_df;
          pattern_candidates = find_by_patterns products_df';
          candidates = embedding_candidates @ identifier_candidates @ attribute_candidates
                       @ pattern_candidates
      in (merge_candidates iter candidates, products_df'))"

subsection \<open>An example catalog\<close>

definition mk :: "string \<Rightarrow> (string \<times> cell) list \<Rightarrow> real option \<Rightarrow> product" where
  "mk s fs p = \<lparr> sku = s, attrs = map_of fs, normalized = Map.empty, price = p \<rparr>"

definition ex_a1 :: product where
  "ex_a1 = mk ''A1'' [(''upc'', Str ''999''), (''brand_name'', Str ''Nike''), (''size'', NaN),
                      (''product_name'', Str ''Air  Max 90'')] (Some 50)"

definition ex_a2 :: product where
  "ex_a2 = mk ''A2'' [(''upc'', Str ''999''), (''brand_name'', Str '' Nike Inc''), (''size'', NaN),
                      (''product_name'', Str ''air max 90'')] (Some 52)"

definition ex_b1 :: product where
  "ex_b1 = mk ''B1'' [(''upc'', NaN), (''brand_name'', PyNone), (''size'', Str ''M''),
                      (''product_name'', NaN)] (Some 80)"

definition ex_df :: dataframe where
  "ex_df = \<lparr> columns = [''upc'', ''brand_name'', ''size'', ''product_name''], norm_columns = [],
             has_price = True, rows = [ex_a1, ex_a2, ex_b1] \<rparr>"

section \<open>Properties of the strategies\<close>

subsection \<open>Exact identifiers\<close>

lemma all_pairs_short: "length xs \<le> 1 \<Longrightarrow> all_pairs xs = []"
  by (cases xs) auto

lemma all_pairs_split:
  "(a, b) \<in> set (all_pairs (us @ a # vs @ b # ws))"
  by (induction us) auto

lemma nth_split2:
  assumes "i < j" "j < length xs"
  shows "\<exists>us vs ws. xs = us @ xs ! i # vs @ xs ! j # ws"
proof -
  from assms have i: "i < length xs" by simp
  have xs: "xs = take i xs @ xs ! i # drop (Suc i) xs"
    using i by (rule id_take_nth_drop)
  let ?ys = "drop (Suc i) xs"
  have j': "j - Suc i < length ?ys"
    using assms by simp
  have ys: "?ys = take (j - Suc i) ?ys @ ?ys ! (j - Suc i) # drop (Suc (j - Suc i)) ?ys"
    using j' by (rule id_take_nth_drop)
  have "?ys ! (j - Suc i) = xs ! j"
    using assms by simp
  with xs ys show ?thesis
    by metis
qed

lemma all_pairs_nth:
  assumes "i < j" "j < length xs"
  shows "(xs ! i, xs ! j) \<in> set (all_pairs xs)"
proof -
  from nth_split2 [OF assms] obtain us vs ws where "xs = us @ xs ! i # vs @ xs ! j # ws"
    by blast
  then show ?thesis
    using all_pairs_split [of "xs ! i" "xs ! j" us vs ws] by simp
qed

lemma all_pairs_filter_map:
  assumes "i < j" "j < length xs" "P (xs ! i)" "P (xs ! j)"
  shows "(f (xs ! i), f (xs ! j)) \<in> set (all_pairs (map f (filter P xs)))"
proof -
  from nth_split2 [OF assms(1,2)] obtain us vs ws where xs: "xs = us @ xs ! i # vs @ xs ! j # ws"
    by blast
  have "map f (filter P xs) = map f (filter P us) @ f (xs ! i) # map f (filter P vs) @ f (xs ! j) # map f (filter P ws)"
    by (subst xs) (simp add: assms(3,4))
  then show ?thesis
    using all_pairs_split by metis
qed

text \<open>
  Claim C4. For every catalog with an identifier column (one of upc, ean, isbn, asin,
  model_number), any two rows that hold the same non-null value in that column yield a
  candidate of the identifier strategy with similarity score 1 and confidence 1, whatever
  the other attributes and the prices of the two rows are.
\<close>

theorem identifier_match_candidate:
  assumes "col \<in> set identifier_columns" and "col \<in> set (columns df)"
    and "i < j" and "j < length (rows df)"
    and "get (rows df ! i) col = Str v" and "get (rows df ! j) col = Str v"
  shows "\<lparr> sku1 = sku (rows df ! i), sku2 = sku (rows df ! j), similarity_score = 1,
           matching_attributes = [(col, True)], confidence = 1,
           reason = ''Exact '' @ col @ '' match: '' @ v \<rparr>
         \<in> set (find_by_identifiers df)"
proof -
  let ?present = "filter (\<lambda>row. notna (get row col)) (rows df)"
  let ?grp = "filter (\<lambda>row. get row col = Str v) ?present"
  have grp: "?grp = filter (\<lambda>row. get row col = Str v) (rows df)"
    by (rule filter_cong [OF refl, THEN trans [OF filter_filter]]) auto
  have i: "i < length (rows df)"
    using assms(3,4) by simp
  have pair: "(sku (rows df ! i), sku (rows df ! j)) \<in> set (all_pairs (map sku ?grp))"
    unfolding grp using assms(3-6) by (intro all_pairs_filter_map) simp_all
  have "rows df ! i \<in> set ?present"
    using i assms(5) by simp
  then have key: "v \<in> set (sort (remdups (map (\<lambda>row. py_str (get row col)) ?present)))"
    using assms(5) by (force simp: image_iff)
  have len: "length ?grp > 1"
  proof (rule ccontr)
    assume "\<not> length ?grp > 1"
    then have "all_pairs (map sku ?grp) = []"
      by (intro all_pairs_short) simp
    with pair show False by simp
  qed
  have "identifier_candidate col v (sku (rows df ! i), sku (rows df ! j))
      \<in> set (find_by_identifiers_col df col)"
    unfolding find_by_identifiers_col_def Let_def using assms(2) key len pair
    by (auto intro!: bexI [of _ v])
  then show ?thesis
    unfolding find_by_identifiers_def identifier_candidate_def using assms(1) by auto
qed


text \<open>The witness: A1 and A2 of the example catalog share upc 999 and differ in price.\<close>

theorem identifier_match_candidate_witness:
  "price (rows ex_df ! 0) \<noteq> price (rows ex_df ! 1)
   \<and> get (rows ex_df ! 0) ''upc'' = Str ''999'' \<and> get (rows ex_df ! 1) ''upc'' = Str ''999''
   \<and> \<lparr> sku1 = ''A1'', sku2 = ''A2'', similarity_score = 1,
         matching_attributes = [(''upc'', True)], confidence = 1,
         reason = ''Exact upc match: 999'' \<rparr>
       \<in> set (find_by_identifiers ex_df)"
proof -
  have a: "''upc'' \<in> set identifier_columns" and b: "''upc'' \<in> set (columns ex_df)"
    and c: "(0::nat) < 1" and d: "1 < length (rows ex_df)"
    and e: "get (rows ex_df ! 0) ''upc'' = Str ''999''"
    and f: "get (rows ex_df ! 1) ''upc'' = Str ''999''"
    and g: "price (rows ex_df ! 0) \<noteq> price (rows ex_df ! 1)"
    by (simp_all add: identifier_columns_def ex_df_def ex_a1_def ex_a2_def mk_def get_def)
  have skus: "sku (rows ex_df ! 0) = ''A1''" "sku (rows ex_df ! Suc 0) = ''A2''"
    by (simp_all add: ex_df_def ex_a1_def ex_a2_def mk_def)
  from identifier_match_candidate [OF a b c d e f] e f g show ?thesis
    by (simp add: skus)
qed

end
